theory Spec2Isabelle
  imports Complex_Main "HOL-Library.Char_ord" "HOL-Library.List_Lexorder"
    "HOL-Library.Product_Lexorder"
begin

section \<open>EV price estimator: the reference catalog and the valuation engine\<close>

text \<open>
  A shallow embedding of \<^verbatim>\<open>backend/app.py\<close>: the catalog builder
  \<^verbatim>\<open>_load_dataset\<close>, the helpers \<^verbatim>\<open>_years_since\<close> and \<^verbatim>\<open>_clamp\<close>, and the
  request handler \<^verbatim>\<open>valuation\<close>.

  Modelling decisions, each visible in the definitions below:
  \<^item> Python floats are the real numbers: no rounding error, no infinities, no NaN.
    \<^verbatim>\<open>x ** y\<close> with a positive base is \<open>x powr y\<close>.
  \<^item> Python strings are ASCII \<open>string\<close>s; \<^verbatim>\<open>str.lower\<close> and \<^verbatim>\<open>str.strip\<close> act on
    the ASCII letters and the ASCII white space, other characters are left alone.
  \<^item> The clock \<^verbatim>\<open>datetime.utcnow()\<close> is the argument \<open>now\<close>.
  \<^item> An exception is a value: the handler returns \<open>error + ValuationResponse\<close>.
  \<^item> The module-level table \<^verbatim>\<open>REF_DATA\<close> is an argument of the handler.
\<close>

subsection \<open>Configuration\<close>

definition ANNUAL_DEPRECIATION :: real where
  "ANNUAL_DEPRECIATION = 0.07"

definition PER_10K_DEPRECIATION :: real where
  "PER_10K_DEPRECIATION = 0.015"

definition MILEAGE_BUCKET :: int where
  "MILEAGE_BUCKET = 10000"

definition MIN_RETENTION :: real where
  "MIN_RETENTION = 0.35"

subsection \<open>Requests, responses, errors\<close>

record ValuationRequest =
  req_make :: string
  req_model :: string
  mileageKm :: int
  firstRegistration :: string

record ValuationResponse =
  estimate :: real
  currency :: string
  confidence :: "real option"

datatype error = ValueError

subsection \<open>Strings: \<^verbatim>\<open>strip\<close> and \<^verbatim>\<open>lower\<close>\<close>

text \<open>
  The ASCII characters for which \<^verbatim>\<open>str.isspace\<close> holds: tab, line feed, vertical tab,
  form feed, carriage return, the four separators 28 to 31, and the space.
\<close>

definition is_space :: "char \<Rightarrow> bool" where
  "is_space c = (of_char c \<in> {9, 10, 11, 12, 13, 28, 29, 30, 31, 32 :: nat})"

definition lower_char :: "char \<Rightarrow> char" where
  "lower_char c =
     (let n = of_char c :: nat in if 65 \<le> n \<and> n \<le> 90 then char_of (n + 32) else c)"

definition py_strip :: "string \<Rightarrow> string" where
  "py_strip s = rev (dropWhile is_space (rev (dropWhile is_space s)))"

definition py_lower :: "string \<Rightarrow> string" where
  "py_lower s = map lower_char s"

subsection \<open>Dates: \<^verbatim>\<open>datetime.fromisoformat\<close>\<close>

record date =
  year :: int
  month :: int
  day :: int

text \<open>
  \<^verbatim>\<open>datetime.fromisoformat\<close> is applied to at most ten characters. The model accepts
  the calendar form \<^verbatim>\<open>YYYY-MM-DD\<close> with ASCII digits and a date that exists (year 1 to
  9999), which every CPython release accepts; any other text is a \<^verbatim>\<open>ValueError\<close>,
  here \<open>None\<close>. (CPython 3.11 and later also read the basic and week forms; the
  theorems below speak of the parser only through its result.)
\<close>

definition is_digit :: "char \<Rightarrow> bool" where
  "is_digit c = (48 \<le> (of_char c :: nat) \<and> (of_char c :: nat) \<le> 57)"

definition parse_digits :: "string \<Rightarrow> int option" where
  "parse_digits s =
     (if s \<noteq> [] \<and> list_all is_digit s
      then Some (foldl (\<lambda>a c. 10 * a + (int (of_char c) - 48)) 0 s)
      else None)"

definition is_leap :: "int \<Rightarrow> bool" where
  "is_leap y = (y mod 4 = 0 \<and> (y mod 100 \<noteq> 0 \<or> y mod 400 = 0))"

definition days_in_month :: "int \<Rightarrow> int \<Rightarrow> int" where
  "days_in_month y m =
     (if m = 2 then (if is_leap y then 29 else 28)
      else if m = 4 \<or> m = 6 \<or> m = 9 \<or> m = 11 then 30 else 31)"

definition fromisoformat :: "string \<Rightarrow> date option" where
  "fromisoformat s =
     (if length s = 10 \<and> s ! 4 = CHR ''-'' \<and> s ! 7 = CHR ''-'' then
        (case (parse_digits (take 4 s), parse_digits (take 2 (drop 5 s)),
               parse_digits (take 2 (drop 8 s))) of
           (Some y, Some m, Some d) \<Rightarrow>
             if 1 \<le> y \<and> y \<le> 9999 \<and> 1 \<le> m \<and> m \<le> 12 \<and> 1 \<le> d \<and> d \<le> days_in_month y m
             then Some \<lparr>year = y, month = m, day = d\<rparr>
             else None
         | _ \<Rightarrow> None)
      else None)"

subsection \<open>\<^verbatim>\<open>_years_since\<close> and \<^verbatim>\<open>_clamp\<close>\<close>

definition years_since :: "date \<Rightarrow> string \<Rightarrow> real" where
  "years_since now first_registration_iso =
     (case fromisoformat (take 10 first_registration_iso) of
        None \<Rightarrow> 0
      | Some d \<Rightarrow>
          let months = (year now - year d) * 12 + (month now - month d)
          in max 0 (real_of_int months / 12))"

definition clamp :: "real \<Rightarrow> real \<Rightarrow> real \<Rightarrow> real" where
  "clamp v lo hi = max lo (min hi v)"

subsection \<open>The built-ins \<^verbatim>\<open>round(x, 2)\<close> and \<^verbatim>\<open>int(x)\<close>\<close>

text \<open>
  \<^verbatim>\<open>round(x, 2)\<close> gives the nearest multiple of one hundredth, a tie going to the even
  one. \<^verbatim>\<open>int(x)\<close> on a float drops the fraction (towards zero).
\<close>

definition round_half_even :: "real \<Rightarrow> int" where
  "round_half_even y =
     (let f = \<lfloor>y\<rfloor>; d = y - of_int f
      in if d < 1 / 2 then f else if 1 / 2 < d then f + 1 else if even f then f else f + 1)"

definition py_round2 :: "real \<Rightarrow> real" where
  "py_round2 x = of_int (round_half_even (x * 100)) / 100"

definition py_int :: "real \<Rightarrow> int" where
  "py_int x = (if 0 \<le> x then \<lfloor>x\<rfloor> else \<lceil>x\<rceil>)"

subsection \<open>The reference table \<^verbatim>\<open>REF_DATA\<close>\<close>

text \<open>
  One row of the table that \<^verbatim>\<open>_load_dataset\<close> returns. All three branches of the
  builder produce the four columns, so the handler's tests
  \<^verbatim>\<open>"base_price" in match.columns\<close> and \<^verbatim>\<open>"year0" in match.columns\<close> hold. The two
  numeric columns hold numbers; \<open>year0\<close> may be fractional (a median), and the handler
  converts it with \<^verbatim>\<open>int\<close>.
\<close>

record archetype =
  ref_make :: string
  ref_model :: string
  ref_base_price :: real
  ref_year0 :: real

text \<open>\<^verbatim>\<open>REF_DATA[(REF_DATA["make"] == make) & (REF_DATA["model"] == model)]\<close>\<close>

definition lookup :: "archetype list \<Rightarrow> string \<Rightarrow> string \<Rightarrow> archetype list" where
  "lookup REF_DATA mk md = filter (\<lambda>r. ref_make r = mk \<and> ref_model r = md) REF_DATA"

subsection \<open>The handler \<^verbatim>\<open>valuation\<close>\<close>

text \<open>
  Lines 170 to 176: the depreciation model and its clamp, before rounding.
\<close>

definition depreciated :: "real \<Rightarrow> real \<Rightarrow> int \<Rightarrow> real" where
  "depreciated base_price years mileage =
     (let year_factor = (1 - ANNUAL_DEPRECIATION) powr years;
          mileage_blocks = real_of_int mileage / real_of_int MILEAGE_BUCKET;
          mileage_factor = 1 - PER_10K_DEPRECIATION * mileage_blocks;
          raw = base_price * year_factor * mileage_factor;
          min_value = base_price * MIN_RETENTION
      in clamp raw (min_value * 0.8) (base_price * 1.05))"

text \<open>
  Line 179: the confidence heuristic, before rounding.
\<close>

definition confidence_of :: "int \<Rightarrow> int \<Rightarrow> real" where
  "confidence_of year_gap mileage =
     clamp (0.9 - real_of_int year_gap * 0.06 - min 0.5 (real_of_int mileage / 200000)) 0.5 0.9"

text \<open>
  The handler. The second \<^verbatim>\<open>datetime.fromisoformat\<close>, on line 178, is outside any
  \<^verbatim>\<open>try\<close>: its \<^verbatim>\<open>ValueError\<close> leaves the handler.
\<close>

definition valuation :: "archetype list \<Rightarrow> date \<Rightarrow> ValuationRequest \<Rightarrow> error + ValuationResponse" where
  "valuation REF_DATA now req =
     (let make = py_lower (py_strip (req_make req));
          model = py_lower (py_strip (req_model req));
          mileage = mileageKm req;
          years = years_since now (firstRegistration req)
      in case lookup REF_DATA make model of
           [] \<Rightarrow> Inr \<lparr>estimate = 10000, currency = ''EUR'', confidence = Some 0.5\<rparr>
         | row # _ \<Rightarrow>
             let base_price = ref_base_price row;
                 year0 = py_int (ref_year0 row);
                 estimate = depreciated base_price years mileage
             in case fromisoformat (take 10 (firstRegistration req)) of
                  None \<Rightarrow> Inl ValueError
                | Some d \<Rightarrow>
                    let year_gap = abs (year d - year0);
                        confidence = confidence_of year_gap mileage
                    in Inr \<lparr>estimate = py_round2 estimate, currency = ''EUR'',
                            confidence = Some (py_round2 confidence)\<rparr>)"

subsection \<open>The catalog builder \<^verbatim>\<open>_load_dataset\<close>\<close>




text \<open>The table of lines 94 to 102.\<close>

definition fallback_rows :: "archetype list" where
  "fallback_rows =
     [\<lparr>ref_make = ''tesla'', ref_model = ''model 3'', ref_base_price = 28000, ref_year0 = 2019\<rparr>,
      \<lparr>ref_make = ''tesla'', ref_model = ''model y'', ref_base_price = 35000, ref_year0 = 2021\<rparr>,
      \<lparr>ref_make = ''nissan'', ref_model = ''leaf'', ref_base_price = 12000, ref_year0 = 2018\<rparr>,
      \<lparr>ref_make = ''volkswagen'', ref_model = ''id.3'', ref_base_price = 20000, ref_year0 = 2020\<rparr>,
      \<lparr>ref_make = ''volkswagen'', ref_model = ''id.4'', ref_base_price = 26000, ref_year0 = 2021\<rparr>]"





section \<open>Properties\<close>

subsection \<open>The clamp and the two built-ins\<close>

lemma clamp_inverted: "hi < lo \<Longrightarrow> clamp v lo hi = lo"
  by (simp add: clamp_def)









subsection \<open>The depreciation model and the confidence heuristic\<close>

lemma depreciated_negative_price:
  "base_price < 0 \<Longrightarrow> depreciated base_price years mileage = 0.8 * 0.35 * base_price"
  by (simp add: depreciated_def Let_def MIN_RETENTION_def clamp_inverted)






subsection \<open>The three ways out of the handler\<close>

lemma valuation_no_match:
  "lookup REF_DATA (py_lower (py_strip (req_make req))) (py_lower (py_strip (req_model req))) = []
   \<Longrightarrow> valuation REF_DATA now req =
       Inr \<lparr>estimate = 10000, currency = ''EUR'', confidence = Some 0.5\<rparr>"
  by (simp add: valuation_def Let_def)


lemma valuation_unparsed:
  "lookup REF_DATA (py_lower (py_strip (req_make req))) (py_lower (py_strip (req_model req))) = row # rest
   \<Longrightarrow> fromisoformat (take 10 (firstRegistration req)) = None
   \<Longrightarrow> valuation REF_DATA now req = Inl ValueError"
  by (simp add: valuation_def Let_def)

subsection \<open>Normalization of \<^verbatim>\<open>make\<close> and \<^verbatim>\<open>model\<close>\<close>







subsection \<open>The catalog builder\<close>










subsection \<open>Evaluations at concrete inputs\<close>



lemma parse_empty: "fromisoformat [] = None"
  by code_simp

lemma parse_slashes: "fromisoformat ''01/06/2020'' = None"
  by code_simp

lemma lookup_tesla:
  "lookup fallback_rows (py_lower (py_strip ''Tesla'')) (py_lower (py_strip ''Model 3''))
   = [\<lparr>ref_make = ''tesla'', ref_model = ''model 3'', ref_base_price = 28000, ref_year0 = 2019\<rparr>]"
  by code_simp

lemma lookup_lada:
  "lookup fallback_rows (py_lower (py_strip ''Lada'')) (py_lower (py_strip ''Niva'')) = []"
  by code_simp











section \<open>The claims\<close>

text \<open>
  C1 (the code departs from it). With an empty or otherwise unparseable
  \<open>firstRegistration\<close>, \<^verbatim>\<open>_years_since\<close> gives 0, but when an archetype matches the
  handler does not answer: the second \<^verbatim>\<open>datetime.fromisoformat\<close>, on line 178, raises
  \<^verbatim>\<open>ValueError\<close>. Evaluated for the built-in catalog and a request for a Tesla Model 3.
\<close>

theorem unparseable_date_raises:
  "years_since \<lparr>year = 2021, month = 6, day = 1\<rparr> '''' = 0
   \<and> valuation fallback_rows \<lparr>year = 2021, month = 6, day = 1\<rparr>
       \<lparr>req_make = ''Tesla'', req_model = ''Model 3'', mileageKm = 45000, firstRegistration = ''''\<rparr>
     = Inl ValueError
   \<and> valuation fallback_rows \<lparr>year = 2021, month = 6, day = 1\<rparr>
       \<lparr>req_make = ''Tesla'', req_model = ''Model 3'', mileageKm = 45000,
        firstRegistration = ''01/06/2020''\<rparr>
     = Inl ValueError"
proof -
  have "years_since \<lparr>year = 2021, month = 6, day = 1\<rparr> '''' = 0"
    using parse_empty by (simp add: years_since_def)
  moreover have "valuation fallback_rows \<lparr>year = 2021, month = 6, day = 1\<rparr>
       \<lparr>req_make = ''Tesla'', req_model = ''Model 3'', mileageKm = 45000, firstRegistration = ''''\<rparr>
     = Inl ValueError"
    by (rule valuation_unparsed) (simp_all add: lookup_tesla parse_empty)
  moreover have "valuation fallback_rows \<lparr>year = 2021, month = 6, day = 1\<rparr>
       \<lparr>req_make = ''Tesla'', req_model = ''Model 3'', mileageKm = 45000,
        firstRegistration = ''01/06/2020''\<rparr>
     = Inl ValueError"
    by (rule valuation_unparsed) (simp_all add: lookup_tesla parse_slashes)
  ultimately show ?thesis by simp
qed







text \<open>
  C4. When no row of the catalog has the normalized make and model of the request, the
  handler answers with the estimate 10000 and the confidence 0.5 (and the currency
  \<^verbatim>\<open>EUR\<close>), whatever the other fields of the request are; it raises nothing.
\<close>

theorem no_match_default:
  assumes "lookup REF_DATA (py_lower (py_strip (req_make req))) (py_lower (py_strip (req_model req))) = []"
  shows "valuation REF_DATA now req =
           Inr \<lparr>estimate = 10000, currency = ''EUR'', confidence = Some 0.5\<rparr>"
  using assms by (rule valuation_no_match)

theorem no_match_default_witness:
  "valuation fallback_rows \<lparr>year = 2021, month = 6, day = 1\<rparr>
     \<lparr>req_make = ''Lada'', req_model = ''Niva'', mileageKm = 45000, firstRegistration = ''01/06/2020''\<rparr>
   = Inr \<lparr>estimate = 10000, currency = ''EUR'', confidence = Some 0.5\<rparr>"
  by (rule no_match_default) (simp add: lookup_lada)











text \<open>
  C10. The clamp is \<open>max lo (min hi v)\<close> for all arguments, so with \<open>lo > hi\<close> it is \<open>lo\<close>
  whatever \<open>v\<close> is; and for a negative base price the estimate before rounding is
  \<open>0.8 * 0.35 * basePrice\<close>, a negative number.
\<close>

theorem clamp_inverted_bounds_negative_price:
  "clamp v lo hi = max lo (min hi v)
   \<and> (hi < lo \<longrightarrow> clamp v lo hi = lo)
   \<and> (base_price < 0 \<longrightarrow>
        depreciated base_price years mileage = 0.8 * 0.35 * base_price
        \<and> depreciated base_price years mileage < 0)"
  by (simp add: clamp_inverted depreciated_negative_price) (simp add: clamp_def)

theorem clamp_inverted_bounds_negative_price_witness:
  "clamp 5 3 1 = 3 \<and> (1::real) < 3 \<and> (- 100 :: real) < 0
   \<and> depreciated (- 100) 1 50000 = - 28 \<and> depreciated (- 100) 1 50000 < 0"
  using clamp_inverted_bounds_negative_price [of 5 3 1 "- 100" 1 50000] by simp

end
